theory Spec2Isabelle
  imports Complex_Main
begin

section \<open>Open3D Core/Registration/Feature.cpp: pair features, SPFH and FPFH\<close>

text \<open>
  The C++ type \<open>double\<close> is read as \<open>real\<close> (exact arithmetic, no rounding, no
  infinities), \<open>M_PI\<close> as \<open>pi\<close>. The one place of the file where a \<open>double\<close>
  operation has no real value is \<open>acos\<close> outside \<open>[-1, 1]\<close>: C returns a NaN there, which
  the model writes \<open>None\<close>; every ordered comparison with a NaN is false.
\<close>

subsection \<open>Eigen vectors\<close>

datatype Vector3d = Vector3d (x3: real) (y3: real) (z3: real)

datatype Vector4d = Vector4d (c0: real) (c1: real) (c2: real) (c3: real)

definition Zero4 :: Vector4d where
  "Zero4 = Vector4d 0 0 0 0"

fun sub3 :: "Vector3d \<Rightarrow> Vector3d \<Rightarrow> Vector3d" where
  "sub3 (Vector3d a b c) (Vector3d a' b' c') = Vector3d (a - a') (b - b') (c - c')"

fun scale3 :: "real \<Rightarrow> Vector3d \<Rightarrow> Vector3d" where
  "scale3 s (Vector3d a b c) = Vector3d (a * s) (b * s) (c * s)"

fun div3 :: "Vector3d \<Rightarrow> real \<Rightarrow> Vector3d" where
  "div3 (Vector3d a b c) s = Vector3d (a / s) (b / s) (c / s)"

fun dot :: "Vector3d \<Rightarrow> Vector3d \<Rightarrow> real" where
  "dot (Vector3d a b c) (Vector3d a' b' c') = a * a' + b * b' + c * c'"

definition norm3 :: "Vector3d \<Rightarrow> real" where
  "norm3 v = sqrt (dot v v)"

fun cross3 :: "Vector3d \<Rightarrow> Vector3d \<Rightarrow> Vector3d" where
  "cross3 (Vector3d a b c) (Vector3d a' b' c') =
     Vector3d (b * c' - c * b') (c * a' - a * c') (a * b' - b * a')"

subsection \<open>The functions of \<open>math.h\<close> that the file calls\<close>

definition fabs :: "real \<Rightarrow> real" where
  "fabs a = \<bar>a\<bar>"

definition acos :: "real \<Rightarrow> real option" where
  "acos a = (if - 1 \<le> a \<and> a \<le> 1 then Some (arccos a) else None)"

fun gt_double :: "real option \<Rightarrow> real option \<Rightarrow> bool" where
  "gt_double (Some a) (Some b) = (a > b)"
| "gt_double _ _ = False"


text \<open>
  \<open>atan2 b a\<close> is the angle of the point \<open>(a, b)\<close> in \<open>(-pi, pi]\<close>, and 0 at the origin.
\<close>

definition atan2 :: "real \<Rightarrow> real \<Rightarrow> real" where
  "atan2 b a =
     (if a > 0 then arctan (b / a)
      else if a < 0 \<and> b \<ge> 0 then arctan (b / a) + pi
      else if a < 0 \<and> b < 0 then arctan (b / a) - pi
      else if b > 0 then pi / 2
      else if b < 0 then - (pi / 2)
      else 0)"

definition floor_double :: "real \<Rightarrow> real" where
  "floor_double a = of_int \<lfloor>a\<rfloor>"

subsection \<open>ComputePairFeatures\<close>

text \<open>
  Lines 47 to 58: the two angles, the comparison and the swap. The result is the tuple of
  the locals \<open>(n1_copy, n2_copy, dp2p1, result(2))\<close> as they stand at line 59. The local
  \<open>dp2p1\<close>, declared \<open>auto\<close>, is read as the difference vector itself, and \<open>cross3\<close> as
  the cross product of two 3-vectors. The two angles are the exact quotients: where the
  rounded quotient of the source falls on the other side of 1 than the exact one, the
  comparison of the source and the one here can differ.
\<close>

definition canonical_frame ::
  "Vector3d \<Rightarrow> Vector3d \<Rightarrow> Vector3d \<Rightarrow> real \<Rightarrow> Vector3d \<times> Vector3d \<times> Vector3d \<times> real" where
  "canonical_frame n1 n2 dp2p1 result3 =
     (let angle1 = dot n1 dp2p1 / result3;
          angle2 = dot n2 dp2p1 / result3
      in if gt_double (acos (fabs angle1)) (acos (fabs angle2))
         then (n2, n1, scale3 (- 1) dp2p1, - angle2)
         else (n1, n2, dp2p1, angle1))"

definition ComputePairFeatures ::
  "Vector3d \<Rightarrow> Vector3d \<Rightarrow> Vector3d \<Rightarrow> Vector3d \<Rightarrow> Vector4d" where
  "ComputePairFeatures p1 n1 p2 n2 =
     (let dp2p1 = sub3 p2 p1;
          result3 = norm3 dp2p1
      in if result3 = 0 then Zero4
         else
           (case canonical_frame n1 n2 dp2p1 result3 of
              (n1_copy, n2_copy, dp2p1', result2) \<Rightarrow>
                (let v = cross3 dp2p1' n1_copy;
                     v_norm = norm3 v
                 in if v_norm = 0 then Zero4
                    else
                      (let v' = div3 v v_norm;
                           w = cross3 n1_copy v';
                           result1 = dot v' n2_copy;
                           result0 = atan2 (dot w n2_copy) (dot n1_copy n2_copy)
                       in Vector4d result0 result1 result2 result3))))"

subsection \<open>Conversion of a double to int\<close>

text \<open>
  \<open>(int)a\<close> truncates towards zero when the truncated value fits in 32 bits. C++ leaves
  every other conversion undefined; its outcome is the parameter \<open>ovf\<close>, about which
  nothing is assumed.
\<close>

definition double_to_int :: "(real \<Rightarrow> int) \<Rightarrow> real \<Rightarrow> int" where
  "double_to_int ovf a =
     (let t = (if a \<ge> 0 then \<lfloor>a\<rfloor> else \<lceil>a\<rceil>)
      in if - 2147483648 \<le> t \<and> t \<le> 2147483647 then t else ovf a)"

subsection \<open>PointCloud, Feature and std::vector\<close>

text \<open>
  The members \<open>points_\<close>, \<open>normals_\<close> and \<open>data_\<close> lose their final underscore, which an
  Isabelle name cannot end with.
\<close>

record PointCloud =
  points :: "Vector3d list"
  normals :: "Vector3d list"

text \<open>
  Modelled from the spec: \<open>PointCloud::HasNormals\<close> is declared in PointCloud.h, which is
  not among the sources. Section 6 of the spec: positions and normals are parallel arrays
  of equal length, and a cloud may come without normals.
\<close>

definition HasNormals :: "PointCloud \<Rightarrow> bool" where
  "HasNormals input \<longleftrightarrow> length (normals input) = length (points input)"

text \<open>
  The matrix \<open>data_\<close> is kept as the list of its columns; a column is the list of its
  rows. \<open>data_(r, c)\<close> is \<open>data feature ! c ! r\<close>.
\<close>

record Feature =
  data :: "real list list"

definition make_Feature :: Feature where
  "make_Feature = \<lparr>data = []\<rparr>"

text \<open>
  Modelled from the spec: \<open>Feature::Resize\<close> is declared in Feature.h, which is not among
  the sources. Sections 3 and 6 of the spec: the container is a dense matrix of the given
  row count with one column per point, zero-filled until a computation writes to it.
\<close>

definition Resize :: "nat \<Rightarrow> nat \<Rightarrow> Feature \<Rightarrow> Feature" where
  "Resize rows cols feature = feature\<lparr>data := replicate cols (replicate rows 0)\<rparr>"

datatype error = OutOfRange

text \<open>
  \<open>operator[]\<close> of \<open>std::vector\<close> with an \<open>int\<close> index, and \<open>data_(r, c) += incr\<close>.
  An index outside the container is undefined behaviour in C++; the model stops with
  \<open>OutOfRange\<close>.
\<close>

definition vector_at :: "'a list \<Rightarrow> int \<Rightarrow> error + 'a" where
  "vector_at xs j = (if 0 \<le> j \<and> j < int (length xs) then Inr (xs ! nat j) else Inl OutOfRange)"

definition add_coeff :: "Feature \<Rightarrow> int \<Rightarrow> nat \<Rightarrow> real \<Rightarrow> error + Feature" where
  "add_coeff feature r c incr =
     (if c < length (data feature) \<and> 0 \<le> r \<and> r < int (length (data feature ! c))
      then Inr (feature\<lparr>data := (data feature)
                  [c := (data feature ! c)[nat r := data feature ! c ! nat r + incr]]\<rparr>)
      else Inl OutOfRange)"

text \<open>A \<open>for\<close> loop over the values \<open>xs\<close> of its counter, stopping at the first error.\<close>

fun for_each :: "('a \<Rightarrow> 's \<Rightarrow> error + 's) \<Rightarrow> 'a list \<Rightarrow> 's \<Rightarrow> error + 's" where
  "for_each body [] s = Inr s"
| "for_each body (a # as) s =
     (case body a s of Inl e \<Rightarrow> Inl e | Inr s' \<Rightarrow> for_each body as s')"

subsection \<open>ComputeSPFHFeature\<close>

text \<open>
  A built \<open>KDTreeFlann\<close> is its \<open>Search\<close>: from the query point and the search parameter
  to the neighbour indices and the squared distances. The index structure is an external
  collaborator, so it is a parameter of the model, and the type \<open>'p\<close> of the search
  parameter is left open: the file only passes it on.
\<close>

type_synonym 'p KDTreeFlann = "Vector3d \<Rightarrow> 'p \<Rightarrow> int list \<times> real list"

text \<open>Lines 93 and 94, 97 and 98, 101 and 102.\<close>

definition clamp_h_index :: "int \<Rightarrow> int" where
  "clamp_h_index h_index =
     (let h = (if h_index < 0 then 0 else h_index)
      in if h \<ge> 11 then 10 else h)"

text \<open>Line 92, and lines 96 and 100.\<close>

definition h_index_f1 :: "(real \<Rightarrow> int) \<Rightarrow> real \<Rightarrow> int" where
  "h_index_f1 ovf pf0 =
     clamp_h_index (double_to_int ovf (floor_double (11 * (pf0 + pi) / (2 * pi))))"

definition h_index_f23 :: "(real \<Rightarrow> int) \<Rightarrow> real \<Rightarrow> int" where
  "h_index_f23 ovf pf12 =
     clamp_h_index (double_to_int ovf (floor_double (11 * (pf12 + 1) * 0.5)))"

text \<open>Lines 89 to 103: the body of the loop over \<open>k\<close>.\<close>

definition spfh_neighbor ::
  "(real \<Rightarrow> int) \<Rightarrow> PointCloud \<Rightarrow> nat \<Rightarrow> Vector3d \<Rightarrow> Vector3d \<Rightarrow> int list \<Rightarrow> real \<Rightarrow>
     nat \<Rightarrow> Feature \<Rightarrow> error + Feature" where
  "spfh_neighbor ovf input i point normal indices hist_incr k feature =
     (case vector_at (points input) (indices ! k) of
        Inl e \<Rightarrow> Inl e
      | Inr pk \<Rightarrow>
     (case vector_at (normals input) (indices ! k) of
        Inl e \<Rightarrow> Inl e
      | Inr nk \<Rightarrow>
     (let pf = ComputePairFeatures point normal pk nk
      in case add_coeff feature (h_index_f1 ovf (c0 pf)) i hist_incr of
           Inl e \<Rightarrow> Inl e
         | Inr feature1 \<Rightarrow>
        (case add_coeff feature1 (h_index_f23 ovf (c1 pf) + 11) i hist_incr of
           Inl e \<Rightarrow> Inl e
         | Inr feature2 \<Rightarrow>
             add_coeff feature2 (h_index_f23 ovf (c2 pf) + 22) i hist_incr))))"

text \<open>Lines 80 to 105: the body of the loop over \<open>i\<close>.\<close>

definition spfh_point ::
  "(real \<Rightarrow> int) \<Rightarrow> PointCloud \<Rightarrow> 'p KDTreeFlann \<Rightarrow> 'p \<Rightarrow> nat \<Rightarrow> Feature \<Rightarrow> error + Feature" where
  "spfh_point ovf input kdtree search_param i feature =
     (case vector_at (points input) (int i) of
        Inl e \<Rightarrow> Inl e
      | Inr point \<Rightarrow>
     (case vector_at (normals input) (int i) of
        Inl e \<Rightarrow> Inl e
      | Inr normal \<Rightarrow>
     (let indices = fst (kdtree point search_param)
      in if length indices > 1
         then (let hist_incr = 100 / real (length indices - 1)
               in for_each (spfh_neighbor ovf input i point normal indices hist_incr)
                    [1..<length indices] feature)
         else Inr feature)))"

text \<open>
  The loop counter \<open>i\<close> is an \<open>int\<close> in the source; the model counts with \<open>nat\<close>, which
  agrees with it for every cloud of fewer than \<open>2^31\<close> points.
\<close>

definition ComputeSPFHFeature ::
  "(real \<Rightarrow> int) \<Rightarrow> PointCloud \<Rightarrow> 'p KDTreeFlann \<Rightarrow> 'p \<Rightarrow> error + Feature" where
  "ComputeSPFHFeature ovf input kdtree search_param =
     (let feature = Resize 33 (length (points input)) make_Feature
      in for_each (spfh_point ovf input kdtree search_param)
           [0..<length (points input)] feature)"

subsection \<open>ComputeFPFHFeature\<close>

text \<open>
  The result is the returned feature together with the messages handed to \<open>PrintDebug\<close>.
  The constructor \<open>KDTreeFlann(input)\<close> is the parameter \<open>build\<close>.
\<close>

definition no_normal_message :: string where
  "no_normal_message =
     ''[ComputeFPFHFeature] Failed because input point cloud has no normal.'' @ [CHR 0x0A]"

definition ComputeFPFHFeature ::
  "(real \<Rightarrow> int) \<Rightarrow> (PointCloud \<Rightarrow> 'p KDTreeFlann) \<Rightarrow> PointCloud \<Rightarrow> 'p \<Rightarrow>
     error + Feature \<times> string list" where
  "ComputeFPFHFeature ovf build input search_param =
     (let feature = Resize 33 (length (points input)) make_Feature
      in if HasNormals input = False
         then Inr (feature, [no_normal_message])
         else (let kdtree = build input
               in case ComputeSPFHFeature ovf input kdtree search_param of
                    Inl e \<Rightarrow> Inl e
                  | Inr spfh \<Rightarrow> Inr (feature, [])))"

subsection \<open>Notions used in the statements\<close>

text \<open>
  The contract of the neighbourhood query that the file relies on: for a query at a point
  of the cloud, every returned index addresses a point of the cloud.
\<close>

definition Search_in_range :: "'p KDTreeFlann \<Rightarrow> 'p \<Rightarrow> PointCloud \<Rightarrow> bool" where
  "Search_in_range kdtree search_param input \<longleftrightarrow>
     (\<forall>q \<in> set (points input). \<forall>j \<in> set (fst (kdtree q search_param)).
        0 \<le> j \<and> j < int (length (points input)))"

text \<open>The sum of the 11 bins of a column that start at row \<open>lo\<close>.\<close>

definition hist_sum :: "real list \<Rightarrow> nat \<Rightarrow> real" where
  "hist_sum col lo = (\<Sum>r = lo..<lo + 11. col ! r)"

text \<open>A feature of 33 rows and \<open>n\<close> columns.\<close>

definition wf_feature :: "Feature \<Rightarrow> nat \<Rightarrow> bool" where
  "wf_feature feature n \<longleftrightarrow>
     length (data feature) = n \<and> (\<forall>c < n. length (data feature ! c) = 33)"

text \<open>
  Every entry of the column \<open>new\<close> is the entry of \<open>old\<close> plus a whole number of
  increments \<open>incr\<close>.
\<close>

definition gained :: "real \<Rightarrow> real list \<Rightarrow> real list \<Rightarrow> bool" where
  "gained incr old new \<longleftrightarrow>
     length new = length old \<and>
     (\<forall>r < length old. \<exists>m::nat. new ! r = old ! r + real m * incr)"

text \<open>
  What the loop body for point \<open>i\<close> does to column \<open>i\<close>, as a relation between the column
  before and after: with at least one true neighbour each of the three histograms gains
  100, in steps of 100 divided by the number of true neighbours; otherwise the column is
  untouched.
\<close>

definition column_done ::
  "'p KDTreeFlann \<Rightarrow> 'p \<Rightarrow> PointCloud \<Rightarrow> nat \<Rightarrow> real list \<Rightarrow> real list \<Rightarrow> bool" where
  "column_done kdtree search_param input i old new =
     (let indices = fst (kdtree (points input ! i) search_param)
      in if length indices > 1
         then gained (100 / real (length indices - 1)) old new \<and>
              hist_sum new 0 = hist_sum old 0 + 100 \<and>
              hist_sum new 11 = hist_sum old 11 + 100 \<and>
              hist_sum new 22 = hist_sum old 22 + 100
         else new = old)"

text \<open>
  The combination of section 4.4 of the spec, written from its words: the entry of row
  \<open>r\<close> of \<open>FPFH(i)\<close>, from the SPFH columns \<open>spfh\<close>, the neighbours of \<open>i\<close> and the
  distance between two points of the cloud.
\<close>

definition distance :: "PointCloud \<Rightarrow> nat \<Rightarrow> nat \<Rightarrow> real" where
  "distance input i j = norm3 (sub3 (points input ! j) (points input ! i))"

definition FPFH_spec :: "PointCloud \<Rightarrow> real list list \<Rightarrow> nat list \<Rightarrow> nat \<Rightarrow> nat \<Rightarrow> real" where
  "FPFH_spec input spfh neighbors i r =
     (let usable = filter (\<lambda>j. distance input i j > 0) neighbors;
          k = length usable
      in if k = 0 then spfh ! i ! r
         else spfh ! i ! r + (1 / real k) * (\<Sum>j\<leftarrow>usable. spfh ! j ! r / distance input i j))"

text \<open>
  Two points of a flat patch, one unit apart, with the same normal; each is the only
  neighbour of the other.
\<close>

definition flat_patch :: PointCloud where
  "flat_patch = \<lparr>points = [Vector3d 0 0 0, Vector3d 1 0 0],
                 normals = [Vector3d 0 0 1, Vector3d 0 0 1]\<rparr>"

definition flat_patch_kdtree :: "unit KDTreeFlann" where
  "flat_patch_kdtree q search_param =
     (if q = Vector3d 0 0 0 then ([0, 1], [0, 1]) else ([1, 0], [0, 1]))"

definition flat_patch_spfh :: "real list" where
  "flat_patch_spfh = (replicate 33 0)[5 := 100, 16 := 100, 27 := 100]"

section \<open>Properties of ComputePairFeatures\<close>

subsection \<open>Vector algebra\<close>

lemma dot_self_nonneg: "0 \<le> dot v v"
  by (cases v) simp

lemma norm3_nonneg: "0 \<le> norm3 v"
  by (simp add: norm3_def dot_self_nonneg)

lemma norm3_sq: "(norm3 v)\<^sup>2 = dot v v"
  by (simp add: norm3_def dot_self_nonneg)

lemma norm3_eq_0_iff: "norm3 v = 0 \<longleftrightarrow> v = Vector3d 0 0 0"
proof (cases v)
  case (Vector3d a b c)
  have "a * a + b * b + c * c = 0 \<longleftrightarrow> a = 0 \<and> b = 0 \<and> c = 0"
    by (smt (verit) mult_eq_0_iff zero_le_square sum_squares_eq_zero_iff)
  then show ?thesis
    using Vector3d by (simp add: norm3_def)
qed

lemma sub3_eq_zero_iff: "sub3 p2 p1 = Vector3d 0 0 0 \<longleftrightarrow> p2 = p1"
  by (cases p2; cases p1) simp

lemma lagrange: "dot a a * dot b b - (dot a b)\<^sup>2 = dot (cross3 a b) (cross3 a b)"
  by (cases a; cases b) (simp add: power2_eq_square algebra_simps)

lemma cauchy_schwarz_sq: "(dot a b)\<^sup>2 \<le> dot a a * dot b b"
  using lagrange [of a b] dot_self_nonneg [of "cross3 a b"] by linarith

lemma cauchy_schwarz: "\<bar>dot a b\<bar> \<le> norm3 a * norm3 b"
proof -
  have "\<bar>dot a b\<bar>\<^sup>2 \<le> (norm3 a * norm3 b)\<^sup>2"
    using cauchy_schwarz_sq [of a b] by (simp add: power_mult_distrib norm3_sq)
  moreover have "0 \<le> norm3 a * norm3 b"
    by (simp add: norm3_nonneg)
  ultimately show ?thesis
    using power2_le_imp_le by blast
qed



lemma norm3_div3_self: "norm3 v \<noteq> 0 \<Longrightarrow> norm3 (div3 v (norm3 v)) = 1"
proof -
  assume nz: "norm3 v \<noteq> 0"
  have "dot (div3 v (norm3 v)) (div3 v (norm3 v)) = dot v v / (norm3 v)\<^sup>2"
    by (cases v) (simp add: power2_eq_square add_divide_distrib)
  also have "\<dots> = 1"
    using nz by (simp add: norm3_sq [symmetric])
  finally show ?thesis
    by (simp add: norm3_def)
qed

lemma atan2_bounds: "- pi \<le> atan2 b a \<and> atan2 b a \<le> pi"
proof -
  have lb: "- (pi / 2) < arctan (b / a)" and ub: "arctan (b / a) < pi / 2"
    by (rule arctan_lbound, rule arctan_ubound)
  have neg: "a < 0 \<Longrightarrow> 0 \<le> b \<Longrightarrow> arctan (b / a) \<le> 0"
    by (simp add: divide_nonneg_neg)
  have pos: "a < 0 \<Longrightarrow> b < 0 \<Longrightarrow> 0 \<le> arctan (b / a)"
    by (simp add: divide_nonpos_neg)
  show ?thesis
    unfolding atan2_def using lb ub neg pos pi_gt_zero by (auto simp: not_less)
qed

subsection \<open>The claims on ComputePairFeatures\<close>

lemma sub3_self: "sub3 p p = Vector3d 0 0 0"
  by (cases p) simp

lemma norm3_zero_vec: "norm3 (Vector3d 0 0 0) = 0"
  by (simp add: norm3_def)

text \<open>
  C5. Two coincident points (\<open>p2 = p1\<close>, so the connecting vector has norm zero) give the
  exact zero 4-tuple, whatever the two normals are.
\<close>

theorem ComputePairFeatures_coincident:
  "ComputePairFeatures p n1 p n2 = Vector4d 0 0 0 0"
  by (simp add: ComputePairFeatures_def sub3_self norm3_zero_vec Zero4_def)

lemma norm3_sub3_eq_0_iff: "norm3 (sub3 p2 p1) = 0 \<longleftrightarrow> p1 = p2"
  by (auto simp: norm3_eq_0_iff sub3_eq_zero_iff)

lemma angle_bound:
  assumes "norm3 n = 1" and "norm3 d \<noteq> 0"
  shows "\<bar>dot n d / norm3 d\<bar> \<le> 1"
proof -
  have pos: "0 < norm3 d"
    using assms(2) norm3_nonneg [of d] by linarith
  have "\<bar>dot n d\<bar> \<le> norm3 d"
    using cauchy_schwarz [of n d] assms(1) by simp
  moreover have "\<bar>dot n d / norm3 d\<bar> = \<bar>dot n d\<bar> / norm3 d"
    using pos by simp
  ultimately show ?thesis
    using pos by (simp only: divide_le_eq_1_pos)
qed



lemma canonical_frame_cases:
  "canonical_frame n1 n2 d r = (n1, n2, d, dot n1 d / r) \<or>
   canonical_frame n1 n2 d r = (n2, n1, scale3 (- 1) d, - (dot n2 d / r))"
  by (simp add: canonical_frame_def Let_def)





text \<open>
  C7. For a non-coincident pair whose reference normal after the swap is parallel to the
  connecting line (the cross product of \<open>d\<close> with it has norm zero), the result is the
  zero 4-tuple: a value, as for every other input of this total function.
\<close>

theorem ComputePairFeatures_parallel:
  assumes "p1 \<noteq> p2"
    and "canonical_frame n1 n2 (sub3 p2 p1) (norm3 (sub3 p2 p1)) = (reference, other, d', f3)"
    and "norm3 (cross3 d' reference) = 0"
  shows "ComputePairFeatures p1 n1 p2 n2 = Vector4d 0 0 0 0"
  using assms by (simp add: ComputePairFeatures_def Let_def norm3_sub3_eq_0_iff Zero4_def)

theorem ComputePairFeatures_parallel_witness:
  "Vector3d 0 0 0 \<noteq> Vector3d 1 0 0 \<and>
   canonical_frame (Vector3d 1 0 0) (Vector3d 1 0 0) (sub3 (Vector3d 1 0 0) (Vector3d 0 0 0))
     (norm3 (sub3 (Vector3d 1 0 0) (Vector3d 0 0 0))) =
     (Vector3d 1 0 0, Vector3d 1 0 0, Vector3d 1 0 0, 1) \<and>
   norm3 (cross3 (Vector3d 1 0 0) (Vector3d 1 0 0)) = 0 \<and>
   ComputePairFeatures (Vector3d 0 0 0) (Vector3d 1 0 0) (Vector3d 1 0 0) (Vector3d 1 0 0) =
     Vector4d 0 0 0 0"
proof -
  have h1: "Vector3d 0 0 0 \<noteq> Vector3d 1 0 0" by simp
  have h2: "canonical_frame (Vector3d 1 0 0) (Vector3d 1 0 0)
      (sub3 (Vector3d 1 0 0) (Vector3d 0 0 0)) (norm3 (sub3 (Vector3d 1 0 0) (Vector3d 0 0 0))) =
     (Vector3d 1 0 0, Vector3d 1 0 0, Vector3d 1 0 0, 1)"
    by (simp add: canonical_frame_def norm3_def acos_def fabs_def)
  have h3: "norm3 (cross3 (Vector3d 1 0 0) (Vector3d 1 0 0)) = 0"
    by (simp add: norm3_def)
  show ?thesis
    using h1 h2 h3 ComputePairFeatures_parallel [OF h1 h2 h3] by simp
qed

lemma unit_dot_bound:
  assumes "norm3 a = 1" and "norm3 b = 1"
  shows "- 1 \<le> dot a b \<and> dot a b \<le> 1"
  using cauchy_schwarz [of a b] assms by (simp add: abs_le_iff)

lemma pair_features_bounds_frame:
  assumes u: "norm3 u = 1" and o': "norm3 o' = 1" and f3: "\<bar>f3\<bar> \<le> 1" and r: "0 \<le> r"
  shows "(let v = cross3 d' u; v_norm = norm3 v
          in if v_norm = 0 then Zero4
             else (let v' = div3 v v_norm; w = cross3 u v'; result1 = dot v' o';
                       result0 = atan2 (dot w o') (dot u o')
                   in Vector4d result0 result1 f3 r)) \<in>
         {pf. - pi \<le> c0 pf \<and> c0 pf \<le> pi \<and> - 1 \<le> c1 pf \<and> c1 pf \<le> 1 \<and>
              - 1 \<le> c2 pf \<and> c2 pf \<le> 1 \<and> 0 \<le> c3 pf}"
proof (cases "norm3 (cross3 d' u) = 0")
  case True
  then show ?thesis by (simp add: Zero4_def)
next
  case False
  have "- 1 \<le> dot (div3 (cross3 d' u) (norm3 (cross3 d' u))) o' \<and>
        dot (div3 (cross3 d' u) (norm3 (cross3 d' u))) o' \<le> 1"
    by (rule unit_dot_bound [OF norm3_div3_self [OF False] o'])
  then show ?thesis
    using False f3 r atan2_bounds by (simp add: Let_def abs_le_iff)
qed

text \<open>
  C10. With unit normals the result \<open>(f1, f2, f3, distance)\<close> has \<open>f1\<close> in
  \<open>[-pi, pi]\<close>, \<open>f2\<close> and \<open>f3\<close> in \<open>[-1, 1]\<close> and \<open>distance \<ge> 0\<close>, in exact real
  arithmetic.
\<close>

theorem ComputePairFeatures_ranges:
  assumes "norm3 n1 = 1" and "norm3 n2 = 1"
  shows "- pi \<le> c0 (ComputePairFeatures p1 n1 p2 n2) \<and>
         c0 (ComputePairFeatures p1 n1 p2 n2) \<le> pi \<and>
         - 1 \<le> c1 (ComputePairFeatures p1 n1 p2 n2) \<and>
         c1 (ComputePairFeatures p1 n1 p2 n2) \<le> 1 \<and>
         - 1 \<le> c2 (ComputePairFeatures p1 n1 p2 n2) \<and>
         c2 (ComputePairFeatures p1 n1 p2 n2) \<le> 1 \<and>
         0 \<le> c3 (ComputePairFeatures p1 n1 p2 n2)"
proof (cases "norm3 (sub3 p2 p1) = 0")
  case True
  then show ?thesis by (simp add: ComputePairFeatures_def Zero4_def)
next
  case False
  define d where "d = sub3 p2 p1"
  have nz: "norm3 d \<noteq> 0" using False by (simp add: d_def)
  have r: "0 \<le> norm3 d" by (rule norm3_nonneg)
  from canonical_frame_cases [of n1 n2 d "norm3 d"]
  show ?thesis
  proof
    assume eq: "canonical_frame n1 n2 d (norm3 d) = (n1, n2, d, dot n1 d / norm3 d)"
    show ?thesis
      using pair_features_bounds_frame [OF assms(1) assms(2) angle_bound [OF assms(1) nz] r, of d]
        nz eq by (simp add: ComputePairFeatures_def d_def [symmetric] Let_def)
  next
    assume eq: "canonical_frame n1 n2 d (norm3 d) =
      (n2, n1, scale3 (- 1) d, - (dot n2 d / norm3 d))"
    have f3: "\<bar>- (dot n2 d / norm3 d)\<bar> \<le> 1"
      using angle_bound [OF assms(2) nz] by simp
    show ?thesis
      using pair_features_bounds_frame [OF assms(2) assms(1) f3 r, of "scale3 (- 1) d"]
        nz eq by (simp add: ComputePairFeatures_def d_def [symmetric] Let_def)
  qed
qed
theorem ComputePairFeatures_ranges_witness:
  "norm3 (Vector3d 0 0 1) = 1 \<and> norm3 (Vector3d 1 0 0) = 1 \<and>
   - pi \<le> c0 (ComputePairFeatures (Vector3d 0 0 0) (Vector3d 0 0 1) (Vector3d 1 1 0) (Vector3d 1 0 0)) \<and>
   c0 (ComputePairFeatures (Vector3d 0 0 0) (Vector3d 0 0 1) (Vector3d 1 1 0) (Vector3d 1 0 0)) \<le> pi \<and>
   - 1 \<le> c1 (ComputePairFeatures (Vector3d 0 0 0) (Vector3d 0 0 1) (Vector3d 1 1 0) (Vector3d 1 0 0)) \<and>
   c1 (ComputePairFeatures (Vector3d 0 0 0) (Vector3d 0 0 1) (Vector3d 1 1 0) (Vector3d 1 0 0)) \<le> 1 \<and>
   - 1 \<le> c2 (ComputePairFeatures (Vector3d 0 0 0) (Vector3d 0 0 1) (Vector3d 1 1 0) (Vector3d 1 0 0)) \<and>
   c2 (ComputePairFeatures (Vector3d 0 0 0) (Vector3d 0 0 1) (Vector3d 1 1 0) (Vector3d 1 0 0)) \<le> 1 \<and>
   0 \<le> c3 (ComputePairFeatures (Vector3d 0 0 0) (Vector3d 0 0 1) (Vector3d 1 1 0) (Vector3d 1 0 0))"
proof -
  have h1: "norm3 (Vector3d 0 0 1) = 1" by (simp add: norm3_def)
  have h2: "norm3 (Vector3d 1 0 0) = 1" by (simp add: norm3_def)
  show ?thesis
    using h1 h2 ComputePairFeatures_ranges [OF h1 h2, of "Vector3d 0 0 0" "Vector3d 1 1 0"]
    by simp
qed

section \<open>Properties of the histogram bins\<close>

lemma clamp_h_index_range: "0 \<le> clamp_h_index h \<and> clamp_h_index h \<le> 10"
  by (simp add: clamp_h_index_def Let_def)

lemma double_to_int_small:
  "- 2147483648 \<le> n \<Longrightarrow> n \<le> 2147483647 \<Longrightarrow> double_to_int ovf (of_int n) = n"
  by (simp add: double_to_int_def Let_def)

lemma h_index_f1_pi: "h_index_f1 ovf pi = 10"
proof -
  have "11 * (pi + pi) / (2 * pi) = 11"
    by simp
  then have "floor_double (11 * (pi + pi) / (2 * pi)) = of_int 11"
    by (simp add: floor_double_def)
  then show ?thesis
    by (simp only: h_index_f1_def double_to_int_small) (simp add: double_to_int_small clamp_h_index_def)
qed

lemma h_index_f1_minus_pi: "h_index_f1 ovf (- pi) = 0"
  using double_to_int_small [of 0 ovf]
  by (simp add: h_index_f1_def floor_double_def clamp_h_index_def)

lemma h_index_f23_one: "h_index_f23 ovf 1 = 10"
  using double_to_int_small [of 11 ovf]
  by (simp add: h_index_f23_def floor_double_def clamp_h_index_def)

lemma h_index_f23_minus_one: "h_index_f23 ovf (- 1) = 0"
  using double_to_int_small [of 0 ovf]
  by (simp add: h_index_f23_def floor_double_def clamp_h_index_def)

lemma h_index_f1_range: "0 \<le> h_index_f1 ovf a \<and> h_index_f1 ovf a \<le> 10"
  unfolding h_index_f1_def by (rule clamp_h_index_range)

lemma h_index_f23_range: "0 \<le> h_index_f23 ovf a \<and> h_index_f23 ovf a \<le> 10"
  unfolding h_index_f23_def by (rule clamp_h_index_range)

text \<open>
  C8. For every real value, also at or beyond the bounds of the domain, the bin index
  \<open>floor (11 * (value - min) / range)\<close> after the clamp lies in \<open>[0, 10]\<close>, whatever an
  out-of-range conversion to \<open>int\<close> yields. A value at the upper bound (\<open>pi\<close> for \<open>f1\<close>,
  \<open>1\<close> for \<open>f2\<close> and \<open>f3\<close>) goes to bin 10 and one at the lower bound to bin 0, and the
  rows \<open>h\<close>, \<open>h + 11\<close> and \<open>h + 22\<close> that are written lie inside the 33 rows of a column.
\<close>

theorem h_index_in_range:
  "0 \<le> h_index_f1 ovf a \<and> h_index_f1 ovf a \<le> 10 \<and>
   0 \<le> h_index_f23 ovf a \<and> h_index_f23 ovf a \<le> 10 \<and>
   h_index_f23 ovf a + 11 < 33 \<and> h_index_f23 ovf a + 22 < 33 \<and>
   h_index_f1 ovf pi = 10 \<and> h_index_f1 ovf (- pi) = 0 \<and>
   h_index_f23 ovf 1 = 10 \<and> h_index_f23 ovf (- 1) = 0"
  using h_index_f1_range [of ovf a] h_index_f23_range [of ovf a]
  by (simp add: h_index_f1_pi h_index_f1_minus_pi h_index_f23_one h_index_f23_minus_one)

section \<open>Properties of ComputeSPFHFeature\<close>

lemma sum_bump:
  assumes "finite S"
  shows "(\<Sum>k\<in>S. if k = r then f k + d else f k) = (\<Sum>k\<in>S. f k) + (if r \<in> S then (d::real) else 0)"
proof -
  have "(\<Sum>k\<in>S. if k = r then f k + d else f k) = (\<Sum>k\<in>S. f k + (if k = r then d else 0))"
    by (rule sum.cong) auto
  also have "\<dots> = (\<Sum>k\<in>S. f k) + (\<Sum>k\<in>S. if k = r then d else 0)"
    by (rule sum.distrib)
  also have "(\<Sum>k\<in>S. if k = r then d else 0) = (if r \<in> S then d else 0)"
    using assms by (simp add: sum.delta)
  finally show ?thesis .
qed

lemma hist_sum_update:
  assumes "r < length col"
  shows "hist_sum (col[r := col ! r + d]) lo =
         hist_sum col lo + (if lo \<le> r \<and> r < lo + 11 then d else 0)"
proof -
  have "hist_sum (col[r := col ! r + d]) lo =
        (\<Sum>k = lo..<lo + 11. if k = r then col ! k + d else col ! k)"
    unfolding hist_sum_def using assms by (intro sum.cong) (auto simp: nth_list_update)
  also have "\<dots> = hist_sum col lo + (if r \<in> {lo..<lo + 11} then d else 0)"
    unfolding hist_sum_def by (rule sum_bump) simp
  finally show ?thesis by simp
qed

lemma gained_refl: "gained incr col col"
proof -
  have "\<forall>r < length col. \<exists>m::nat. col ! r = col ! r + real m * incr"
    by (intro allI impI exI [of _ 0]) simp
  then show ?thesis by (simp add: gained_def)
qed

lemma gained_trans:
  assumes "gained incr a b" and "gained incr b c"
  shows "gained incr a c"
proof -
  have len: "length b = length a" "length c = length b"
    using assms by (simp_all add: gained_def)
  have "\<exists>m::nat. c ! r = a ! r + real m * incr" if r: "r < length a" for r
  proof -
    obtain m1 :: nat where m1: "b ! r = a ! r + real m1 * incr"
      using assms(1) r by (auto simp: gained_def)
    obtain m2 :: nat where m2: "c ! r = b ! r + real m2 * incr"
      using assms(2) r len by (auto simp: gained_def)
    have "c ! r = a ! r + real (m1 + m2) * incr"
      using m1 m2 by (simp add: algebra_simps)
    then show ?thesis by blast
  qed
  then show ?thesis
    using len by (simp add: gained_def)
qed

lemma gained_update:
  assumes "r < length col"
  shows "gained d col (col[r := col ! r + d])"
proof -
  have "\<exists>m::nat. col[r := col ! r + d] ! k = col ! k + real m * d" if "k < length col" for k
  proof (cases "k = r")
    case True
    then have "col[r := col ! r + d] ! k = col ! k + real (1::nat) * d"
      using assms by simp
    then show ?thesis by blast
  next
    case False
    then have "col[r := col ! r + d] ! k = col ! k + real (0::nat) * d"
      by simp
    then show ?thesis by blast
  qed
  then show ?thesis by (simp add: gained_def)
qed

lemma add_coeff_step:
  assumes wf: "wf_feature f n" and i: "i < n" and r: "0 \<le> r" "r < 33"
  shows "\<exists>f'. add_coeff f r i d = Inr f' \<and> wf_feature f' n \<and>
           (\<forall>c. c \<noteq> i \<longrightarrow> data f' ! c = data f ! c) \<and>
           gained d (data f ! i) (data f' ! i) \<and>
           (\<forall>lo. hist_sum (data f' ! i) lo =
                 hist_sum (data f ! i) lo + (if lo \<le> nat r \<and> nat r < lo + 11 then d else 0))"
proof -
  have len: "length (data f) = n" and col: "length (data f ! i) = 33"
    using wf i by (simp_all add: wf_feature_def)
  define col' where "col' = (data f ! i)[nat r := data f ! i ! nat r + d]"
  define f' where "f' = f\<lparr>data := (data f)[i := col']\<rparr>"
  have eq: "add_coeff f r i d = Inr f'"
    using len col i r by (simp add: add_coeff_def f'_def col'_def)
  have wf': "wf_feature f' n"
    using wf i by (auto simp: wf_feature_def f'_def col'_def nth_list_update)
  have others: "\<forall>c. c \<noteq> i \<longrightarrow> data f' ! c = data f ! c"
    by (simp add: f'_def)
  have coli: "data f' ! i = col'"
    using len i by (simp add: f'_def)
  have nr: "nat r < length (data f ! i)"
    using col r by simp
  then have g: "gained d (data f ! i) (data f' ! i)"
    unfolding coli col'_def by (rule gained_update)
  from nr have sums: "\<forall>lo. hist_sum (data f' ! i) lo =
      hist_sum (data f ! i) lo + (if lo \<le> nat r \<and> nat r < lo + 11 then d else 0)"
    unfolding coli col'_def by (simp add: hist_sum_update)
  show ?thesis
    using eq wf' others g sums by blast
qed

lemma vector_at_in_range:
  "0 \<le> j \<Longrightarrow> j < int (length xs) \<Longrightarrow> vector_at xs j = Inr (xs ! nat j)"
  by (simp add: vector_at_def)

lemma spfh_neighbor_step:
  assumes wf: "wf_feature f n" and i: "i < n"
    and len: "length (normals input) = length (points input)"
    and idx: "0 \<le> indices ! k" "indices ! k < int (length (points input))"
  shows "\<exists>f'. spfh_neighbor ovf input i point normal indices incr k f = Inr f' \<and>
           wf_feature f' n \<and>
           (\<forall>c. c \<noteq> i \<longrightarrow> data f' ! c = data f ! c) \<and>
           gained incr (data f ! i) (data f' ! i) \<and>
           hist_sum (data f' ! i) 0 = hist_sum (data f ! i) 0 + incr \<and>
           hist_sum (data f' ! i) 11 = hist_sum (data f ! i) 11 + incr \<and>
           hist_sum (data f' ! i) 22 = hist_sum (data f ! i) 22 + incr"
proof -
  define pf where "pf = ComputePairFeatures point normal
    (points input ! nat (indices ! k)) (normals input ! nat (indices ! k))"
  define r1 where "r1 = h_index_f1 ovf (c0 pf)"
  define r2 where "r2 = h_index_f23 ovf (c1 pf) + 11"
  define r3 where "r3 = h_index_f23 ovf (c2 pf) + 22"
  have b1: "0 \<le> r1" "r1 < 11"
    using h_index_f1_range [of ovf "c0 pf"] by (simp_all add: r1_def)
  have b2: "11 \<le> r2" "r2 < 22"
    using h_index_f23_range [of ovf "c1 pf"] by (simp_all add: r2_def)
  have b3: "22 \<le> r3" "r3 < 33"
    using h_index_f23_range [of ovf "c2 pf"] by (simp_all add: r3_def)
  obtain f1 where f1: "add_coeff f r1 i incr = Inr f1" "wf_feature f1 n"
      "\<forall>c. c \<noteq> i \<longrightarrow> data f1 ! c = data f ! c"
      "gained incr (data f ! i) (data f1 ! i)"
      "\<forall>lo. hist_sum (data f1 ! i) lo =
         hist_sum (data f ! i) lo + (if lo \<le> nat r1 \<and> nat r1 < lo + 11 then incr else 0)"
    using add_coeff_step [OF wf i, of r1 incr] b1 by auto
  obtain f2 where f2: "add_coeff f1 r2 i incr = Inr f2" "wf_feature f2 n"
      "\<forall>c. c \<noteq> i \<longrightarrow> data f2 ! c = data f1 ! c"
      "gained incr (data f1 ! i) (data f2 ! i)"
      "\<forall>lo. hist_sum (data f2 ! i) lo =
         hist_sum (data f1 ! i) lo + (if lo \<le> nat r2 \<and> nat r2 < lo + 11 then incr else 0)"
    using add_coeff_step [OF f1(2) i, of r2 incr] b2 by auto
  obtain f3 where f3: "add_coeff f2 r3 i incr = Inr f3" "wf_feature f3 n"
      "\<forall>c. c \<noteq> i \<longrightarrow> data f3 ! c = data f2 ! c"
      "gained incr (data f2 ! i) (data f3 ! i)"
      "\<forall>lo. hist_sum (data f3 ! i) lo =
         hist_sum (data f2 ! i) lo + (if lo \<le> nat r3 \<and> nat r3 < lo + 11 then incr else 0)"
    using add_coeff_step [OF f2(2) i, of r3 incr] b3 by auto
  have run: "spfh_neighbor ovf input i point normal indices incr k f = Inr f3"
    using idx len f1(1) f2(1) f3(1)
    by (simp add: spfh_neighbor_def vector_at_in_range Let_def
        pf_def [symmetric] r1_def [symmetric] r2_def [symmetric] r3_def [symmetric])
  have others: "\<forall>c. c \<noteq> i \<longrightarrow> data f3 ! c = data f ! c"
    using f1(3) f2(3) f3(3) by simp
  have n1: "nat r1 < 11" and n2: "11 \<le> nat r2" "nat r2 < 22" and n3: "22 \<le> nat r3" "nat r3 < 33"
    using b1 b2 b3 by linarith+
  have s0: "hist_sum (data f3 ! i) 0 = hist_sum (data f ! i) 0 + incr"
    using f1(5) f2(5) f3(5) n1 n2 n3 by simp
  have s11: "hist_sum (data f3 ! i) 11 = hist_sum (data f ! i) 11 + incr"
    using f1(5) f2(5) f3(5) n1 n2 n3 by simp
  have s22: "hist_sum (data f3 ! i) 22 = hist_sum (data f ! i) 22 + incr"
    using f1(5) f2(5) f3(5) n1 n2 n3 by simp
  have g: "gained incr (data f ! i) (data f3 ! i)"
    using f1(4) f2(4) f3(4) by (blast intro: gained_trans)
  show ?thesis
    using run f3(2) others g s0 s11 s22 by blast
qed

lemma spfh_neighbor_loop:
  assumes "wf_feature f n" and "i < n"
    and "length (normals input) = length (points input)"
    and "\<forall>k \<in> set ks. 0 \<le> indices ! k \<and> indices ! k < int (length (points input))"
  shows "\<exists>f'. for_each (spfh_neighbor ovf input i point normal indices incr) ks f = Inr f' \<and>
           wf_feature f' n \<and>
           (\<forall>c. c \<noteq> i \<longrightarrow> data f' ! c = data f ! c) \<and>
           gained incr (data f ! i) (data f' ! i) \<and>
           hist_sum (data f' ! i) 0 = hist_sum (data f ! i) 0 + real (length ks) * incr \<and>
           hist_sum (data f' ! i) 11 = hist_sum (data f ! i) 11 + real (length ks) * incr \<and>
           hist_sum (data f' ! i) 22 = hist_sum (data f ! i) 22 + real (length ks) * incr"
  using assms
proof (induction ks arbitrary: f)
  case Nil
  then show ?case by (simp add: gained_refl)
next
  case (Cons k ks)
  from Cons.prems(4) have idx: "0 \<le> indices ! k" "indices ! k < int (length (points input))"
    and rest: "\<forall>k \<in> set ks. 0 \<le> indices ! k \<and> indices ! k < int (length (points input))"
    by simp_all
  obtain f1 where f1: "spfh_neighbor ovf input i point normal indices incr k f = Inr f1"
      "wf_feature f1 n" "\<forall>c. c \<noteq> i \<longrightarrow> data f1 ! c = data f ! c"
      "gained incr (data f ! i) (data f1 ! i)"
      "hist_sum (data f1 ! i) 0 = hist_sum (data f ! i) 0 + incr"
      "hist_sum (data f1 ! i) 11 = hist_sum (data f ! i) 11 + incr"
      "hist_sum (data f1 ! i) 22 = hist_sum (data f ! i) 22 + incr"
    using spfh_neighbor_step [OF Cons.prems(1,2,3) idx] by blast
  obtain f' where f': "for_each (spfh_neighbor ovf input i point normal indices incr) ks f1 = Inr f'"
      "wf_feature f' n" "\<forall>c. c \<noteq> i \<longrightarrow> data f' ! c = data f1 ! c"
      "gained incr (data f1 ! i) (data f' ! i)"
      "hist_sum (data f' ! i) 0 = hist_sum (data f1 ! i) 0 + real (length ks) * incr"
      "hist_sum (data f' ! i) 11 = hist_sum (data f1 ! i) 11 + real (length ks) * incr"
      "hist_sum (data f' ! i) 22 = hist_sum (data f1 ! i) 22 + real (length ks) * incr"
    using Cons.IH [OF f1(2) Cons.prems(2,3) rest] by blast
  have run: "for_each (spfh_neighbor ovf input i point normal indices incr) (k # ks) f = Inr f'"
    using f1(1) f'(1) by simp
  have others: "\<forall>c. c \<noteq> i \<longrightarrow> data f' ! c = data f ! c"
    using f1(3) f'(3) by simp
  have sums: "hist_sum (data f' ! i) 0 = hist_sum (data f ! i) 0 + real (length (k # ks)) * incr"
    "hist_sum (data f' ! i) 11 = hist_sum (data f ! i) 11 + real (length (k # ks)) * incr"
    "hist_sum (data f' ! i) 22 = hist_sum (data f ! i) 22 + real (length (k # ks)) * incr"
    using f1(5,6,7) f'(5,6,7) by (simp_all add: algebra_simps)
  have g: "gained incr (data f ! i) (data f' ! i)"
    using f1(4) f'(4) by (rule gained_trans)
  show ?case
    using run f'(2) others g sums by blast
qed

lemma spfh_point_step:
  assumes wf: "wf_feature f n" and n: "n = length (points input)" and i: "i < n"
    and len: "length (normals input) = length (points input)"
    and search: "Search_in_range kdtree search_param input"
  shows "\<exists>f'. spfh_point ovf input kdtree search_param i f = Inr f' \<and> wf_feature f' n \<and>
           (\<forall>c. c \<noteq> i \<longrightarrow> data f' ! c = data f ! c) \<and>
           column_done kdtree search_param input i (data f ! i) (data f' ! i)"
proof -
  define point where "point = points input ! i"
  define normal where "normal = normals input ! i"
  define indices where "indices = fst (kdtree point search_param)"
  have at_p: "vector_at (points input) (int i) = Inr point"
    using i n by (simp add: vector_at_def point_def)
  have at_n: "vector_at (normals input) (int i) = Inr normal"
    using i n len by (simp add: vector_at_def normal_def)
  show ?thesis
  proof (cases "length indices > 1")
    case False
    then have "spfh_point ovf input kdtree search_param i f = Inr f"
      by (simp add: spfh_point_def at_p at_n Let_def indices_def)
    moreover have "column_done kdtree search_param input i (data f ! i) (data f ! i)"
      using False by (simp add: column_done_def Let_def indices_def point_def)
    ultimately show ?thesis
      using wf by simp
  next
    case True
    define incr :: real where "incr = 100 / real (length indices - 1)"
    have "point \<in> set (points input)"
      using i n by (simp add: point_def)
    then have valid: "\<forall>j \<in> set indices. 0 \<le> j \<and> j < int (length (points input))"
      using search by (simp add: Search_in_range_def indices_def)
    have ks: "\<forall>k \<in> set [1..<length indices].
        0 \<le> indices ! k \<and> indices ! k < int (length (points input))"
      using valid by simp
    obtain f' where f': "for_each (spfh_neighbor ovf input i point normal indices incr)
          [1..<length indices] f = Inr f'"
        "wf_feature f' n" "\<forall>c. c \<noteq> i \<longrightarrow> data f' ! c = data f ! c"
        "gained incr (data f ! i) (data f' ! i)"
        "hist_sum (data f' ! i) 0 =
           hist_sum (data f ! i) 0 + real (length [1..<length indices]) * incr"
        "hist_sum (data f' ! i) 11 =
           hist_sum (data f ! i) 11 + real (length [1..<length indices]) * incr"
        "hist_sum (data f' ! i) 22 =
           hist_sum (data f ! i) 22 + real (length [1..<length indices]) * incr"
      using spfh_neighbor_loop [OF wf i len ks] by blast
    define m where "m = length indices - 1"
    have m: "length [1..<length indices] = m" and "m \<noteq> 0"
      using True by (simp_all add: m_def)
    then have total: "real (length [1..<length indices]) * incr = 100"
      by (simp add: incr_def m_def [symmetric])
    have run: "spfh_point ovf input kdtree search_param i f = Inr f'"
      using True f'(1)
      by (simp add: spfh_point_def at_p at_n Let_def indices_def [symmetric] incr_def)
    have "column_done kdtree search_param input i (data f ! i) (data f' ! i)"
      using True f'(4,5,6,7) unfolding total
      by (simp add: column_done_def Let_def indices_def point_def incr_def)
    then show ?thesis
      using run f'(2,3) by blast
  qed
qed

lemma spfh_point_loop:
  assumes "wf_feature f n" and "n = length (points input)"
    and "length (normals input) = length (points input)"
    and "Search_in_range kdtree search_param input"
    and "distinct is" and "\<forall>i \<in> set is. i < n"
  shows "\<exists>f'. for_each (spfh_point ovf input kdtree search_param) is f = Inr f' \<and>
           wf_feature f' n \<and>
           (\<forall>c. c \<notin> set is \<longrightarrow> data f' ! c = data f ! c) \<and>
           (\<forall>c \<in> set is. column_done kdtree search_param input c (data f ! c) (data f' ! c))"
  using assms
proof (induction "is" arbitrary: f)
  case Nil
  then show ?case by simp
next
  case (Cons i "is")
  have i: "i < n" and rest: "\<forall>i \<in> set is. i < n" and fresh: "i \<notin> set is" and d: "distinct is"
    using Cons.prems(5,6) by simp_all
  obtain f1 where f1: "spfh_point ovf input kdtree search_param i f = Inr f1"
      "wf_feature f1 n" "\<forall>c. c \<noteq> i \<longrightarrow> data f1 ! c = data f ! c"
      "column_done kdtree search_param input i (data f ! i) (data f1 ! i)"
    using spfh_point_step [OF Cons.prems(1,2) i Cons.prems(3,4)] by blast
  obtain f' where f': "for_each (spfh_point ovf input kdtree search_param) is f1 = Inr f'"
      "wf_feature f' n" "\<forall>c. c \<notin> set is \<longrightarrow> data f' ! c = data f1 ! c"
      "\<forall>c \<in> set is. column_done kdtree search_param input c (data f1 ! c) (data f' ! c)"
    using Cons.IH [OF f1(2) Cons.prems(2,3,4) d rest] by blast
  have run: "for_each (spfh_point ovf input kdtree search_param) (i # is) f = Inr f'"
    using f1(1) f'(1) by simp
  have untouched: "\<forall>c. c \<notin> set (i # is) \<longrightarrow> data f' ! c = data f ! c"
    using f1(3) f'(3) by simp
  have "column_done kdtree search_param input i (data f ! i) (data f' ! i)"
    using f1(4) f'(3) fresh by simp
  moreover have "\<forall>c \<in> set is. column_done kdtree search_param input c (data f ! c) (data f' ! c)"
  proof
    fix c assume c: "c \<in> set is"
    then have "c \<noteq> i" using fresh by blast
    then have "data f1 ! c = data f ! c" using f1(3) by simp
    then show "column_done kdtree search_param input c (data f ! c) (data f' ! c)"
      using f'(4) c by force
  qed
  ultimately have cols: "\<forall>c \<in> set (i # is).
      column_done kdtree search_param input c (data f ! c) (data f' ! c)"
    by simp
  show ?case
    using run f'(2) untouched cols by blast
qed

lemma wf_feature_Resize: "wf_feature (Resize 33 n make_Feature) n"
  by (simp add: wf_feature_def Resize_def make_Feature_def)

lemma ComputeSPFHFeature_columns:
  assumes "length (normals input) = length (points input)"
    and "Search_in_range kdtree search_param input"
  shows "\<exists>spfh. ComputeSPFHFeature ovf input kdtree search_param = Inr spfh \<and>
           wf_feature spfh (length (points input)) \<and>
           (\<forall>i < length (points input).
              column_done kdtree search_param input i (replicate 33 0) (data spfh ! i))"
proof -
  define n where "n = length (points input)"
  obtain f' where f': "for_each (spfh_point ovf input kdtree search_param) [0..<n]
        (Resize 33 n make_Feature) = Inr f'"
      "wf_feature f' n"
      "\<forall>c \<in> set [0..<n]. column_done kdtree search_param input c
          (data (Resize 33 n make_Feature) ! c) (data f' ! c)"
    using spfh_point_loop [OF wf_feature_Resize n_def assms, of "[0..<n]" ovf] by auto
  have "\<forall>i < n. column_done kdtree search_param input i (replicate 33 0) (data f' ! i)"
    using f'(3) by (simp add: Resize_def make_Feature_def)
  then show ?thesis
    using f'(1,2) by (simp add: ComputeSPFHFeature_def Let_def n_def [symmetric])
qed

lemma hist_sum_zero: "lo + 11 \<le> n \<Longrightarrow> hist_sum (replicate n 0) lo = 0"
  by (simp add: hist_sum_def)

lemma sum_list_33:
  assumes "length col = 33"
  shows "sum_list col = hist_sum col 0 + hist_sum col 11 + hist_sum col 22"
proof -
  have "sum_list col = (\<Sum>r = 0..<33. col ! r)"
    using assms by (simp add: sum_list_sum_nth)
  also have "\<dots> = (\<Sum>r = 0..<22. col ! r) + (\<Sum>r = 22..<33. col ! r)"
    by (simp add: sum.atLeastLessThan_concat)
  also have "(\<Sum>r = 0..<22. col ! r) = (\<Sum>r = 0..<11. col ! r) + (\<Sum>r = 11..<22. col ! r)"
    by (simp add: sum.atLeastLessThan_concat)
  finally show ?thesis
    by (simp add: hist_sum_def)
qed

text \<open>
  C3. When normals and points have the same length and the query respects its contract,
  ComputeSPFHFeature returns, and for every point \<open>i\<close> whose query gives more than one
  index (at least one true neighbour beyond the point itself) each of the three 11-bin
  histograms of column \<open>i\<close> (rows 0 to 10, 11 to 21, 22 to 32) sums to 100, the column sums
  to 300, and every entry is a whole number of increments of 100 divided by the number of
  true neighbours. Exact real arithmetic.
\<close>

theorem ComputeSPFHFeature_histograms:
  assumes "length (normals input) = length (points input)"
    and "Search_in_range kdtree search_param input"
    and "i < length (points input)"
    and "length (fst (kdtree (points input ! i) search_param)) > 1"
  shows "\<exists>spfh. ComputeSPFHFeature ovf input kdtree search_param = Inr spfh \<and>
           length (data spfh ! i) = 33 \<and>
           hist_sum (data spfh ! i) 0 = 100 \<and>
           hist_sum (data spfh ! i) 11 = 100 \<and>
           hist_sum (data spfh ! i) 22 = 100 \<and>
           sum_list (data spfh ! i) = 300 \<and>
           (\<forall>r < 33. \<exists>m::nat. data spfh ! i ! r =
              real m * (100 / real (length (fst (kdtree (points input ! i) search_param)) - 1)))"
proof -
  obtain spfh where spfh: "ComputeSPFHFeature ovf input kdtree search_param = Inr spfh"
      "wf_feature spfh (length (points input))"
      "column_done kdtree search_param input i (replicate 33 0) (data spfh ! i)"
    using ComputeSPFHFeature_columns [OF assms(1,2), of ovf] assms(3) by blast
  have len: "length (data spfh ! i) = 33"
    using spfh(2) assms(3) by (simp add: wf_feature_def)
  have sums: "hist_sum (data spfh ! i) 0 = 100" "hist_sum (data spfh ! i) 11 = 100"
      "hist_sum (data spfh ! i) 22 = 100"
    using spfh(3) assms(4) by (simp_all add: column_done_def Let_def hist_sum_zero)
  have total: "sum_list (data spfh ! i) = 300"
    using sum_list_33 [OF len] sums by simp
  have "gained (100 / real (length (fst (kdtree (points input ! i) search_param)) - 1))
      (replicate 33 0) (data spfh ! i)"
    using spfh(3) assms(4) by (simp add: column_done_def Let_def)
  then have steps: "\<forall>r < 33. \<exists>m::nat. data spfh ! i ! r =
      real m * (100 / real (length (fst (kdtree (points input ! i) search_param)) - 1))"
    by (simp add: gained_def)
  show ?thesis
    using spfh(1) len sums total steps by blast
qed

theorem ComputeSPFHFeature_histograms_witness:
  "length (normals flat_patch) = length (points flat_patch) \<and>
   Search_in_range flat_patch_kdtree () flat_patch \<and>
   0 < length (points flat_patch) \<and>
   length (fst (flat_patch_kdtree (points flat_patch ! 0) ())) > 1 \<and>
   (\<exists>spfh. ComputeSPFHFeature (\<lambda>a. 0) flat_patch flat_patch_kdtree () = Inr spfh \<and>
      hist_sum (data spfh ! 0) 0 = 100 \<and> hist_sum (data spfh ! 0) 11 = 100 \<and>
      hist_sum (data spfh ! 0) 22 = 100 \<and> sum_list (data spfh ! 0) = 300)"
proof -
  have h1: "length (normals flat_patch) = length (points flat_patch)"
    by (simp add: flat_patch_def)
  have h2: "Search_in_range flat_patch_kdtree () flat_patch"
    by (simp add: Search_in_range_def flat_patch_def flat_patch_kdtree_def)
  have h3: "0 < length (points flat_patch)"
    by (simp add: flat_patch_def)
  have h4: "length (fst (flat_patch_kdtree (points flat_patch ! 0) ())) > 1"
    by (simp add: flat_patch_def flat_patch_kdtree_def)
  show ?thesis
    using h1 h2 h3 h4 ComputeSPFHFeature_histograms [OF h1 h2 h3 h4, of "\<lambda>a. 0"] by blast
qed

text \<open>
  C9. Under the same conditions, for every point \<open>i\<close> whose query gives at most one index
  (no true neighbour), column \<open>i\<close> of the result of ComputeSPFHFeature is 33 zeros.
\<close>

theorem ComputeSPFHFeature_no_neighbor:
  assumes "length (normals input) = length (points input)"
    and "Search_in_range kdtree search_param input"
    and "i < length (points input)"
    and "length (fst (kdtree (points input ! i) search_param)) \<le> 1"
  shows "\<exists>spfh. ComputeSPFHFeature ovf input kdtree search_param = Inr spfh \<and>
           data spfh ! i = replicate 33 0"
proof -
  obtain spfh where spfh: "ComputeSPFHFeature ovf input kdtree search_param = Inr spfh"
      "column_done kdtree search_param input i (replicate 33 0) (data spfh ! i)"
    using ComputeSPFHFeature_columns [OF assms(1,2), of ovf] assms(3) by blast
  have "data spfh ! i = replicate 33 0"
    using spfh(2) assms(4) by (simp add: column_done_def Let_def)
  then show ?thesis
    using spfh(1) by blast
qed

theorem ComputeSPFHFeature_no_neighbor_witness:
  "length (normals \<lparr>points = [Vector3d 0 0 0], normals = [Vector3d 0 0 1]\<rparr>) =
     length (points \<lparr>points = [Vector3d 0 0 0], normals = [Vector3d 0 0 1]\<rparr>) \<and>
   Search_in_range (\<lambda>q search_param. ([0], [0])) ()
     \<lparr>points = [Vector3d 0 0 0], normals = [Vector3d 0 0 1]\<rparr> \<and>
   (\<exists>spfh. ComputeSPFHFeature (\<lambda>a. 0) \<lparr>points = [Vector3d 0 0 0], normals = [Vector3d 0 0 1]\<rparr>
        (\<lambda>q search_param. ([0], [0])) () = Inr spfh \<and>
      data spfh ! 0 = replicate 33 0)"
proof -
  let ?input = "\<lparr>points = [Vector3d 0 0 0], normals = [Vector3d 0 0 1]\<rparr>"
  let ?kdtree = "\<lambda>(q::Vector3d) (search_param::unit). ([0::int], [0::real])"
  have h1: "length (normals ?input) = length (points ?input)"
    by simp
  have h2: "Search_in_range ?kdtree () ?input"
    by (simp add: Search_in_range_def)
  have h3: "0 < length (points ?input)"
    by simp
  have h4: "length (fst (?kdtree (points ?input ! 0) ())) \<le> 1"
    by simp
  show ?thesis
    using h1 h2 ComputeSPFHFeature_no_neighbor [OF h1 h2 h3 h4, of "\<lambda>a. 0"] by blast
qed

section \<open>Properties of ComputeFPFHFeature\<close>

text \<open>
  C2. For a cloud without normals ComputeFPFHFeature returns a value (no error): the
  matrix of 33 rows and one column per point whose entries are all zero, together with
  the one diagnostic message handed to \<open>PrintDebug\<close>.
\<close>

theorem ComputeFPFHFeature_no_normals:
  assumes "\<not> HasNormals input"
  shows "ComputeFPFHFeature ovf build input search_param =
    Inr (\<lparr>data = replicate (length (points input)) (replicate 33 0)\<rparr>, [no_normal_message])"
  using assms by (simp add: ComputeFPFHFeature_def Let_def Resize_def make_Feature_def)

theorem ComputeFPFHFeature_no_normals_witness:
  "\<not> HasNormals \<lparr>points = [Vector3d 0 0 0, Vector3d 1 0 0], normals = []\<rparr> \<and>
   ComputeFPFHFeature (\<lambda>a. 0) (\<lambda>input. flat_patch_kdtree)
     \<lparr>points = [Vector3d 0 0 0, Vector3d 1 0 0], normals = []\<rparr> () =
   Inr (\<lparr>data = [replicate 33 0, replicate 33 0]\<rparr>, [no_normal_message])"
proof -
  have h: "\<not> HasNormals \<lparr>points = [Vector3d 0 0 0, Vector3d 1 0 0], normals = []\<rparr>"
    by (simp add: HasNormals_def)
  have two: "replicate 2 (replicate 33 (0::real)) = [replicate 33 0, replicate 33 0]"
    by (simp add: numeral_2_eq_2)
  show ?thesis
    using h ComputeFPFHFeature_no_normals [OF h, of "\<lambda>a. 0" "\<lambda>input. flat_patch_kdtree" "()"]
    by (simp add: two)
qed

text \<open>
  C4. For every cloud, with or without normals, the matrix that ComputeFPFHFeature returns
  is the one its initial \<open>Resize(33, N)\<close> left: the SPFH matrix computed on the way is
  dropped and no entry of the returned feature is written. The function returns whenever
  the query respects its contract.
\<close>

theorem ComputeFPFHFeature_is_Resize:
  assumes "Search_in_range (build input) search_param input"
  shows "(\<exists>log. ComputeFPFHFeature ovf build input search_param =
            Inr (Resize 33 (length (points input)) make_Feature, log)) \<and>
         (\<forall>feature log. ComputeFPFHFeature ovf build input search_param = Inr (feature, log) \<longrightarrow>
            feature = Resize 33 (length (points input)) make_Feature)"
proof (cases "HasNormals input")
  case False
  then show ?thesis
    by (simp add: ComputeFPFHFeature_def Let_def)
next
  case True
  then have len: "length (normals input) = length (points input)"
    by (simp add: HasNormals_def)
  obtain spfh where "ComputeSPFHFeature ovf input (build input) search_param = Inr spfh"
    using ComputeSPFHFeature_columns [OF len assms, of ovf] by blast
  then show ?thesis
    using True by (simp add: ComputeFPFHFeature_def Let_def)
qed

theorem ComputeFPFHFeature_is_Resize_witness:
  "Search_in_range flat_patch_kdtree () flat_patch \<and>
   (\<exists>log. ComputeFPFHFeature (\<lambda>a. 0) (\<lambda>input. flat_patch_kdtree) flat_patch () =
      Inr (Resize 33 (length (points flat_patch)) make_Feature, log))"
proof -
  have h: "Search_in_range ((\<lambda>input. flat_patch_kdtree) flat_patch) () flat_patch"
    by (simp add: Search_in_range_def flat_patch_def flat_patch_kdtree_def)
  show ?thesis
    using h ComputeFPFHFeature_is_Resize [OF h, of "\<lambda>a. 0"] by simp
qed

subsection \<open>The flat patch of two points\<close>

lemma pair_feature_flat_01:
  "ComputePairFeatures (Vector3d 0 0 0) (Vector3d 0 0 1) (Vector3d 1 0 0) (Vector3d 0 0 1) =
     Vector4d 0 0 0 1"
  by (simp add: ComputePairFeatures_def canonical_frame_def norm3_def acos_def fabs_def
      atan2_def Let_def)

lemma pair_feature_flat_10:
  "ComputePairFeatures (Vector3d 1 0 0) (Vector3d 0 0 1) (Vector3d 0 0 0) (Vector3d 0 0 1) =
     Vector4d 0 0 0 1"
  by (simp add: ComputePairFeatures_def canonical_frame_def norm3_def acos_def fabs_def
      atan2_def Let_def)

lemma h_index_f1_zero: "h_index_f1 ovf 0 = 5"
proof -
  have "floor_double (11 * (0 + pi) / (2 * pi)) = of_int 5"
    by (simp add: floor_double_def)
  then show ?thesis
    using double_to_int_small [of 5 ovf] by (simp add: h_index_f1_def clamp_h_index_def)
qed

lemma h_index_f23_zero: "h_index_f23 ovf 0 = 5"
proof -
  have "floor_double (11 * (0 + 1) * 0.5) = of_int 5"
    by (simp add: floor_double_def)
  then show ?thesis
    using double_to_int_small [of 5 ovf] by (simp add: h_index_f23_def clamp_h_index_def)
qed

lemma add_coeff_column:
  assumes "c < length cols" and "r < length (cols ! c)"
  shows "add_coeff \<lparr>data = cols\<rparr> (int r) c d =
         Inr \<lparr>data = cols[c := (cols ! c)[r := cols ! c ! r + d]]\<rparr>"
  using assms by (simp add: add_coeff_def)

lemma spfh_neighbor_flat:
  assumes "c < length cols" and "length (cols ! c) = 33"
    and "vector_at (points input) (indices ! k) = Inr pk"
    and "vector_at (normals input) (indices ! k) = Inr nk"
    and "ComputePairFeatures point normal pk nk = Vector4d 0 0 0 1"
  shows "spfh_neighbor ovf input c point normal indices d k \<lparr>data = cols\<rparr> =
         Inr \<lparr>data = cols[c := (cols ! c)[5 := cols ! c ! 5 + d, 16 := cols ! c ! 16 + d,
                                          27 := cols ! c ! 27 + d]]\<rparr>"
proof -
  have a1: "add_coeff \<lparr>data = cols\<rparr> 5 c d =
      Inr \<lparr>data = cols[c := (cols ! c)[5 := cols ! c ! 5 + d]]\<rparr>"
    using add_coeff_column [of c cols 5 d] assms(1,2) by simp
  have a2: "add_coeff \<lparr>data = cols[c := (cols ! c)[5 := cols ! c ! 5 + d]]\<rparr> 16 c d =
      Inr \<lparr>data = cols[c := (cols ! c)[5 := cols ! c ! 5 + d, 16 := cols ! c ! 16 + d]]\<rparr>"
    using add_coeff_column [of c "cols[c := (cols ! c)[5 := cols ! c ! 5 + d]]" 16 d] assms(1,2)
    by simp
  have a3: "add_coeff \<lparr>data = cols[c := (cols ! c)[5 := cols ! c ! 5 + d, 16 := cols ! c ! 16 + d]]\<rparr>
        27 c d =
      Inr \<lparr>data = cols[c := (cols ! c)[5 := cols ! c ! 5 + d, 16 := cols ! c ! 16 + d,
                                       27 := cols ! c ! 27 + d]]\<rparr>"
    using add_coeff_column [of c "cols[c := (cols ! c)[5 := cols ! c ! 5 + d, 16 := cols ! c ! 16 + d]]" 27 d]
      assms(1,2)
    by simp
  show ?thesis
    by (simp add: spfh_neighbor_def assms(3,4,5) Let_def h_index_f1_zero h_index_f23_zero a1 a2 a3)
qed

lemma spfh_of_flat_patch:
  "ComputeSPFHFeature ovf flat_patch flat_patch_kdtree () =
     Inr \<lparr>data = [flat_patch_spfh, flat_patch_spfh]\<rparr>"
proof -
  let ?z = "replicate 33 (0::real)"
  have init: "Resize 33 (length (points flat_patch)) make_Feature = \<lparr>data = [?z, ?z]\<rparr>"
    by (simp add: Resize_def make_Feature_def flat_patch_def numeral_2_eq_2)
  have upt2: "[0..<length (points flat_patch)] = [0, Suc 0]"
    by (simp add: flat_patch_def upt_rec)
  have p0: "spfh_point ovf flat_patch flat_patch_kdtree () 0 \<lparr>data = [?z, ?z]\<rparr> =
      Inr \<lparr>data = [flat_patch_spfh, ?z]\<rparr>"
    using spfh_neighbor_flat [of 0 "[?z, ?z]" flat_patch "[0, 1]" 1 "Vector3d 1 0 0"
        "Vector3d 0 0 1" "Vector3d 0 0 0" "Vector3d 0 0 1" ovf 100]
    by (simp add: spfh_point_def flat_patch_def flat_patch_kdtree_def vector_at_def Let_def
        upt_rec pair_feature_flat_01 flat_patch_spfh_def)
  have p1: "spfh_point ovf flat_patch flat_patch_kdtree () (Suc 0) \<lparr>data = [flat_patch_spfh, ?z]\<rparr> =
      Inr \<lparr>data = [flat_patch_spfh, flat_patch_spfh]\<rparr>"
    using spfh_neighbor_flat [of 1 "[flat_patch_spfh, ?z]" flat_patch "[1, 0]" 1 "Vector3d 0 0 0"
        "Vector3d 0 0 1" "Vector3d 1 0 0" "Vector3d 0 0 1" ovf 100]
    by (simp add: spfh_point_def flat_patch_def flat_patch_kdtree_def vector_at_def Let_def
        upt_rec pair_feature_flat_10 flat_patch_spfh_def)
  show ?thesis
    unfolding ComputeSPFHFeature_def Let_def init upt2 by (simp add: p0 p1)
qed

lemma FPFH_spec_flat_patch:
  "FPFH_spec flat_patch [flat_patch_spfh, flat_patch_spfh] [1] 0 5 = 200"
  by (simp add: FPFH_spec_def distance_def flat_patch_def norm3_def flat_patch_spfh_def Let_def)

text \<open>
  On every cloud with normals, whatever the query: where the SPFH column of a point with a
  true neighbour sums to 300, the column that ComputeFPFHFeature returns for it sums to 0.
\<close>

lemma ComputeFPFHFeature_drops_spfh:
  assumes "HasNormals input"
    and "Search_in_range (build input) search_param input"
    and "i < length (points input)"
    and "length (fst (build input (points input ! i) search_param)) > 1"
  shows "\<exists>spfh feature log.
           ComputeSPFHFeature ovf input (build input) search_param = Inr spfh \<and>
           ComputeFPFHFeature ovf build input search_param = Inr (feature, log) \<and>
           sum_list (data spfh ! i) = 300 \<and> sum_list (data feature ! i) = 0"
proof -
  have len: "length (normals input) = length (points input)"
    using assms(1) by (simp add: HasNormals_def)
  obtain spfh where spfh: "ComputeSPFHFeature ovf input (build input) search_param = Inr spfh"
      "wf_feature spfh (length (points input))"
      "column_done (build input) search_param input i (replicate 33 0) (data spfh ! i)"
    using ComputeSPFHFeature_columns [OF len assms(2), of ovf] assms(3) by blast
  have "length (data spfh ! i) = 33"
    using spfh(2) assms(3) by (simp add: wf_feature_def)
  moreover have "hist_sum (data spfh ! i) 0 = 100" "hist_sum (data spfh ! i) 11 = 100"
      "hist_sum (data spfh ! i) 22 = 100"
    using spfh(3) assms(4) by (simp_all add: column_done_def Let_def hist_sum_zero)
  ultimately have total: "sum_list (data spfh ! i) = 300"
    using sum_list_33 [of "data spfh ! i"] by simp
  have run: "ComputeFPFHFeature ovf build input search_param =
      Inr (Resize 33 (length (points input)) make_Feature, [])"
    using assms(1) spfh(1) by (simp add: ComputeFPFHFeature_def Let_def)
  have "sum_list (data (Resize 33 (length (points input)) make_Feature) ! i) = 0"
    using assms(3) by (simp add: Resize_def make_Feature_def sum_list_replicate)
  then show ?thesis
    using spfh(1) run total by blast
qed

text \<open>
  C1. The claim is that the returned descriptor is the distance-weighted combination
  \<open>FPFH(i) = SPFH(i) + (1/k) * (sum of SPFH(j) / distance(i, j))\<close>. On the flat patch of two
  points the SPFH column of either point has 100 in rows 5, 16 and 27, so the combination
  puts 200 in row 5 of \<open>FPFH(0)\<close>; the matrix that ComputeFPFHFeature returns has 0 there,
  as in every other entry.
\<close>

theorem ComputeFPFHFeature_flat_patch:
  "ComputeSPFHFeature (\<lambda>a. 0) flat_patch flat_patch_kdtree () =
     Inr \<lparr>data = [flat_patch_spfh, flat_patch_spfh]\<rparr> \<and>
   FPFH_spec flat_patch [flat_patch_spfh, flat_patch_spfh] [1] 0 5 = 200 \<and>
   ComputeFPFHFeature (\<lambda>a. 0) (\<lambda>input. flat_patch_kdtree) flat_patch () =
     Inr (\<lparr>data = [replicate 33 0, replicate 33 0]\<rparr>, []) \<and>
   [replicate 33 0, replicate 33 (0::real)] ! 0 ! 5 = 0"
proof -
  have has: "HasNormals flat_patch"
    by (simp add: HasNormals_def flat_patch_def)
  have init: "Resize 33 (length (points flat_patch)) make_Feature =
      \<lparr>data = [replicate 33 0, replicate 33 0]\<rparr>"
    by (simp add: Resize_def make_Feature_def flat_patch_def numeral_2_eq_2)
  have fpfh: "ComputeFPFHFeature (\<lambda>a. 0) (\<lambda>input. flat_patch_kdtree) flat_patch () =
      Inr (\<lparr>data = [replicate 33 0, replicate 33 0]\<rparr>, [])"
    unfolding ComputeFPFHFeature_def Let_def init
    by (simp add: has spfh_of_flat_patch)
  have entry: "[replicate 33 0, replicate 33 (0::real)] ! 0 ! 5 = 0"
    by simp
  show ?thesis
    using spfh_of_flat_patch [of "\<lambda>a. 0"] FPFH_spec_flat_patch fpfh entry
    by (intro conjI)
qed

end
